theory Spec2Isabelle
  imports Main
begin

section \<open>JavaScript values\<close>

text \<open>
  The SDK is TypeScript, and its checks are the run-time checks of JavaScript: truthiness
  (\<^verbatim>\<open>!options.from\<close>), \<^verbatim>\<open>Array.isArray\<close>, \<^verbatim>\<open>typeof x === 'string'\<close>, optional chaining and
  \<^verbatim>\<open>??\<close>. The values they inspect are therefore modelled as dynamic values.

  An object is the list of its own properties, with \<^verbatim>\<open>Object.prototype\<close> as its prototype; the
  first binding of a name is the property. Arrays are dense and have no named properties of
  their own. A number is held as the string that \<^verbatim>\<open>Number.prototype.toString\<close> prints for it,
  which tells any two numbers apart except 0 and -0, and those the program cannot tell apart
  either; a string that prints no number is a further value of the type that no run produces.
  Functions, symbols and cyclic structures are not values of this type.
\<close>

datatype jsval =
    JUndefined
  | JNull
  | JBool bool
  | JNum string
  | JStr string
  | JArr "jsval list"
  | JObj "(string \<times> jsval) list"

text \<open>
  Anything thrown. \<open>Error\<close> is \<^verbatim>\<open>new Error(message)\<close>; \<open>TypeError\<close> is what the engine raises
  on a property read of null or undefined, or on a call of a non-function;
  \<open>JetEmailError\<close> is the class of types.ts with its fields message, statusCode and response;
  \<open>Thrown\<close> is a thrown value that is not an instance of Error.
\<close>

datatype js_error =
    Error string
  | TypeError string
  | JetEmailError string nat jsval
  | Thrown jsval

fun instanceof_Error :: "js_error \<Rightarrow> bool" where
  "instanceof_Error (Thrown v) = False"
| "instanceof_Error e = True"

fun instanceof_JetEmailError :: "js_error \<Rightarrow> bool" where
  "instanceof_JetEmailError (JetEmailError m s r) = True"
| "instanceof_JetEmailError e = False"

fun message :: "js_error \<Rightarrow> string" where
  "message (Error m) = m"
| "message (TypeError m) = m"
| "message (JetEmailError m s r) = m"
| "message (Thrown v) = []"

text \<open>
  ToBoolean: undefined, null, false, the numbers 0, -0 and NaN, and the empty string are falsy,
  all else truthy.
\<close>

fun truthy :: "jsval \<Rightarrow> bool" where
  "truthy JUndefined = False"
| "truthy JNull = False"
| "truthy (JBool b) = b"
| "truthy (JNum n) = (n \<noteq> ''0'' \<and> n \<noteq> ''NaN'')"
| "truthy (JStr s) = (s \<noteq> [])"
| "truthy (JArr xs) = True"
| "truthy (JObj fs) = True"

text \<open>Decimal digits of a natural number, as a template literal prints an index or a status.\<close>

fun string_of_nat :: "nat \<Rightarrow> string" where
  "string_of_nat n =
     (if n < 10 then [''0123456789'' ! n]
      else string_of_nat (n div 10) @ [''0123456789'' ! (n mod 10)])"

declare string_of_nat.simps [simp del]

text \<open>
  ToString, as a template literal and the Error constructor apply it. An object is converted
  through its \<^verbatim>\<open>toString\<close> and then its \<^verbatim>\<open>valueOf\<close>: with no own \<^verbatim>\<open>toString\<close> the inherited
  one prints \<^verbatim>\<open>[object Object]\<close>; an own \<^verbatim>\<open>toString\<close> is no function here, and the inherited
  or own \<^verbatim>\<open>valueOf\<close> yields no primitive, so the conversion throws (the wording is V8's). An
  array is converted by \<^verbatim>\<open>Array.prototype.join\<close>: its elements from left to right, joined with
  commas, an undefined or null element as the empty string; the first element whose
  conversion throws ends it.
\<close>

fun ToString :: "jsval \<Rightarrow> js_error + string"
  and join :: "jsval list \<Rightarrow> js_error + string" where
  "ToString JUndefined = Inr ''undefined''"
| "ToString JNull = Inr ''null''"
| "ToString (JBool b) = Inr (if b then ''true'' else ''false'')"
| "ToString (JNum n) = Inr n"
| "ToString (JStr s) = Inr s"
| "ToString (JArr xs) = join xs"
| "ToString (JObj fs) =
     (if map_of fs ''toString'' = None then Inr ''[object Object]''
      else Inl (TypeError ''Cannot convert object to primitive value''))"
| "join [] = Inr []"
| "join (x # xs) =
     (case (if x = JUndefined \<or> x = JNull then Inr [] else ToString x) of
        Inl err \<Rightarrow> Inl err
      | Inr s \<Rightarrow>
          if xs = [] then Inr s
          else (case join xs of
                  Inl err \<Rightarrow> Inl err
                | Inr t \<Rightarrow> Inr (s @ '','' @ t)))"

definition obj_get :: "(string \<times> jsval) list \<Rightarrow> string \<Rightarrow> jsval" where
  "obj_get fs k = (case map_of fs k of None \<Rightarrow> JUndefined | Some v \<Rightarrow> v)"

text \<open>
  A property read \<^verbatim>\<open>v.k\<close>. On undefined and null it throws (the wording is V8's); an
  object yields its property or undefined; the other values have no property of the names
  read in this program (from, to, subject, html, text, apiKey, baseUrl, message, error).
\<close>

fun getprop :: "jsval \<Rightarrow> string \<Rightarrow> js_error + jsval" where
  "getprop JUndefined k =
     Inl (TypeError (''Cannot read properties of undefined (reading '' @ [CHR 0x27] @ k @ [CHR 0x27] @ '')''))"
| "getprop JNull k =
     Inl (TypeError (''Cannot read properties of null (reading '' @ [CHR 0x27] @ k @ [CHR 0x27] @ '')''))"
| "getprop (JObj fs) k = Inr (obj_get fs k)"
| "getprop v k = Inr JUndefined"

fun isArray :: "jsval \<Rightarrow> bool" where
  "isArray (JArr xs) = True"
| "isArray v = False"

text \<open>The elements of an array, read only where \<open>isArray\<close> holds.\<close>

fun elements :: "jsval \<Rightarrow> jsval list" where
  "elements (JArr xs) = xs"
| "elements v = []"

section \<open>types.ts: the structured error\<close>

text \<open>
  \<^verbatim>\<open>constructor(message, statusCode, response?) { super(message); ... }\<close>: the Error
  constructor stores ToString of a message that is not undefined, and throws what that
  conversion throws; a response that is not passed is undefined. \<open>Inr\<close> is the new error,
  \<open>Inl\<close> what the constructor threw instead.
\<close>

definition new_JetEmailError :: "jsval \<Rightarrow> nat \<Rightarrow> jsval \<Rightarrow> js_error + js_error" where
  "new_JetEmailError msg statusCode resp =
     (if msg = JUndefined then Inr (JetEmailError [] statusCode resp)
      else (case ToString msg of
              Inl err \<Rightarrow> Inl err
            | Inr m \<Rightarrow> Inr (JetEmailError m statusCode resp)))"

text \<open>\<^verbatim>\<open>throw new C(...)\<close>: the promise rejects with the new error, or with what \<open>C\<close> threw.\<close>

fun throw :: "js_error + js_error \<Rightarrow> js_error + jsval" where
  "throw (Inl err) = Inl err"
| "throw (Inr err) = Inl err"

section \<open>The transport\<close>

text \<open>
  \<^verbatim>\<open>fetch\<close> and \<^verbatim>\<open>JSON.stringify\<close> are the platform's. A request is what
  \<^verbatim>\<open>fetch(url, {method, headers, body})\<close> is given, the method as the field \<open>http_method\<close>.
  Of a response the program reads the status, \<^verbatim>\<open>ok\<close> (by the Fetch standard true exactly
  for a status from 200 to 299) and \<^verbatim>\<open>json()\<close>, whose rejection is caught with no binding: \<open>None\<close> stands for a body that
  does not decode. The status is the unsigned short of the Fetch standard, held as a natural
  number. \<^verbatim>\<open>fetch\<close> itself may reject.
\<close>

record http_request =
  url :: string
  http_method :: string
  headers :: "(string \<times> string) list"
  body :: string

record http_response =
  status :: nat
  json :: "jsval option"

definition ok :: "http_response \<Rightarrow> bool" where
  "ok response = (200 \<le> status response \<and> status response \<le> 299)"

record env =
  JSON_stringify :: "jsval \<Rightarrow> string"
  fetch :: "http_request \<Rightarrow> js_error + http_response"

text \<open>
  What an asynchronous call did: the requests it handed to \<^verbatim>\<open>fetch\<close>, in order, and how
  its promise settled (\<open>Inl\<close> rejected, \<open>Inr\<close> fulfilled).
\<close>

type_synonym outcome = "http_request list \<times> (js_error + jsval)"

section \<open>client.ts\<close>

definition DEFAULT_BASE_URL :: string where
  "DEFAULT_BASE_URL = ''https://api.jetemail.com''"

record JetEmail =
  apiKey :: jsval
  baseUrl :: string

text \<open>\<^verbatim>\<open>s.replace(/\/$/, '')\<close>: without the m flag \<^verbatim>\<open>$\<close> is the end of the input.\<close>

definition replace_trailing_slash :: "string \<Rightarrow> string" where
  "replace_trailing_slash s = (if s \<noteq> [] \<and> last s = CHR ''/'' then butlast s else s)"

definition new_JetEmail :: "jsval \<Rightarrow> js_error + JetEmail" where
  "new_JetEmail configOrApiKey =
     (let config = (case configOrApiKey of
                      JStr s \<Rightarrow> JObj [(''apiKey'', configOrApiKey)]
                    | _ \<Rightarrow> configOrApiKey)
      in case getprop config ''apiKey'' of
           Inl e \<Rightarrow> Inl e
         | Inr k \<Rightarrow>
             if \<not> truthy k then Inl (Error ''JetEmail: apiKey is required'')
             else (case getprop config ''baseUrl'' of
                     Inl e \<Rightarrow> Inl e
                   | Inr b \<Rightarrow>
                       (case b of
                          JUndefined \<Rightarrow> Inr \<lparr>apiKey = k, baseUrl = DEFAULT_BASE_URL\<rparr>
                        | JNull \<Rightarrow> Inr \<lparr>apiKey = k, baseUrl = DEFAULT_BASE_URL\<rparr>
                        | JStr s \<Rightarrow> Inr \<lparr>apiKey = k, baseUrl = replace_trailing_slash s\<rparr>
                        | _ \<Rightarrow> Inl (TypeError ''config.baseUrl?.replace is not a function''))))"

text \<open>
  The arguments of \<^verbatim>\<open>fetch\<close> are evaluated first, among them the template literal of the
  Authorization header: if the conversion of the credential throws, nothing is fetched.
\<close>

definition request :: "env \<Rightarrow> JetEmail \<Rightarrow> string \<Rightarrow> jsval \<Rightarrow> outcome" where
  "request e this endpoint payload =
     (case ToString (apiKey this) of
        Inl err \<Rightarrow> ([], Inl err)
      | Inr credential \<Rightarrow>
     (let req = \<lparr>url = baseUrl this @ endpoint,
                 http_method = ''POST'',
                 headers = [(''Content-Type'', ''application/json''),
                            (''Authorization'', ''Bearer '' @ credential)],
                 body = JSON_stringify e payload\<rparr>
      in ([req],
          case fetch e req of
            Inl err \<Rightarrow> Inl err
          | Inr response \<Rightarrow>
              (case json response of
                 None \<Rightarrow>
                   throw (new_JetEmailError
                            (JStr (''Request failed with status '' @ string_of_nat (status response)))
                            (status response) JUndefined)
               | Some data \<Rightarrow>
                   if \<not> ok response then
                     (case getprop data ''message'' of
                        Inl err \<Rightarrow> Inl err
                      | Inr m \<Rightarrow>
                          if truthy m then throw (new_JetEmailError m (status response) data)
                          else (case getprop data ''error'' of
                                  Inl err \<Rightarrow> Inl err
                                | Inr m' \<Rightarrow>
                                    throw (new_JetEmailError
                                             (if truthy m' then m' else JStr ''Unknown error'')
                                             (status response) data)))
                   else Inr data))))"

section \<open>emails.ts\<close>

definition Emails_validateEmailOptions :: "jsval \<Rightarrow> js_error + unit" where
  \<open>Emails_validateEmailOptions options =
     (case getprop options ''from'' of
        Inl e \<Rightarrow> Inl e
      | Inr f \<Rightarrow>
          if \<not> truthy f then Inl (Error ''JetEmail: "from" is required'')
          else (case getprop options ''to'' of
             Inl e \<Rightarrow> Inl e
           | Inr t \<Rightarrow>
               if \<not> truthy t then Inl (Error ''JetEmail: "to" is required'')
               else (case getprop options ''subject'' of
                  Inl e \<Rightarrow> Inl e
                | Inr s \<Rightarrow>
                    if \<not> truthy s then Inl (Error ''JetEmail: "subject" is required'')
                    else (case getprop options ''html'' of
                       Inl e \<Rightarrow> Inl e
                     | Inr h \<Rightarrow>
                         if truthy h then Inr ()
                         else (case getprop options ''text'' of
                            Inl e \<Rightarrow> Inl e
                          | Inr x \<Rightarrow>
                              if \<not> truthy x
                              then Inl (Error ''JetEmail: at least one of "html" or "text" is required'')
                              else Inr ())))))\<close>

text \<open>The class takes the dispatch routine it calls as its constructor's argument.\<close>

definition Emails_send :: "(string \<Rightarrow> jsval \<Rightarrow> outcome) \<Rightarrow> jsval \<Rightarrow> outcome" where
  "Emails_send req options =
     (case Emails_validateEmailOptions options of
        Inl e \<Rightarrow> ([], Inl e)
      | Inr u \<Rightarrow> req ''/email'' options)"

definition Batch_validateEmailOptions :: "jsval \<Rightarrow> js_error + unit" where
  \<open>Batch_validateEmailOptions options =
     (case getprop options ''from'' of
        Inl e \<Rightarrow> Inl e
      | Inr f \<Rightarrow>
          if \<not> truthy f then Inl (Error ''JetEmail: "from" is required'')
          else (case getprop options ''to'' of
             Inl e \<Rightarrow> Inl e
           | Inr t \<Rightarrow>
               if \<not> truthy t then Inl (Error ''JetEmail: "to" is required'')
               else (case getprop options ''subject'' of
                  Inl e \<Rightarrow> Inl e
                | Inr s \<Rightarrow>
                    if \<not> truthy s then Inl (Error ''JetEmail: "subject" is required'')
                    else (case getprop options ''html'' of
                       Inl e \<Rightarrow> Inl e
                     | Inr h \<Rightarrow>
                         if truthy h then Inr ()
                         else (case getprop options ''text'' of
                            Inl e \<Rightarrow> Inl e
                          | Inr x \<Rightarrow>
                              if \<not> truthy x
                              then Inl (Error ''JetEmail: at least one of "html" or "text" is required'')
                              else Inr ())))))\<close>

text \<open>
  \<^verbatim>\<open>emails.forEach((email, index) => { try { validate } catch (error) { throw ... } })\<close>:
  the items from \<open>index\<close> on, left to right; the first throw ends the loop.
\<close>

fun forEach_validate :: "jsval list \<Rightarrow> nat \<Rightarrow> js_error + unit" where
  "forEach_validate [] index = Inr ()"
| "forEach_validate (email # rest) index =
     (case Batch_validateEmailOptions email of
        Inl error \<Rightarrow>
          Inl (Error (''JetEmail: email at index '' @ string_of_nat index @ '' is invalid - '' @
                 (if instanceof_Error error then message error else ''Unknown error'')))
      | Inr u \<Rightarrow> forEach_validate rest (Suc index))"

definition Batch_send :: "(string \<Rightarrow> jsval \<Rightarrow> outcome) \<Rightarrow> jsval \<Rightarrow> outcome" where
  "Batch_send req emails =
     (if \<not> isArray emails \<or> length (elements emails) = 0
      then ([], Inl (Error ''JetEmail: emails array is required and must not be empty''))
      else if length (elements emails) > 100
      then ([], Inl (Error ''JetEmail: maximum batch size is 100 emails''))
      else (case forEach_validate (elements emails) 0 of
              Inl e \<Rightarrow> ([], Inl e)
            | Inr u \<Rightarrow> req ''/email-batch'' (JObj [(''emails'', emails)])))"

text \<open>
  The two sub-resources of a client, \<^verbatim>\<open>this.email\<close> and \<^verbatim>\<open>this.batch\<close>, are built on
  \<^verbatim>\<open>this.request.bind(this)\<close>.
\<close>

definition email_send :: "env \<Rightarrow> JetEmail \<Rightarrow> jsval \<Rightarrow> outcome" where
  "email_send e this = Emails_send (request e this)"

definition batch_send :: "env \<Rightarrow> JetEmail \<Rightarrow> jsval \<Rightarrow> outcome" where
  "batch_send e this = Batch_send (request e this)"

section \<open>Fixtures\<close>

text \<open>
  A client and mock transports for the concrete scenarios: each transport answers every
  request with one fixed response, and the serializer is a stand-in that prints a constant.
\<close>

definition mock_env :: "nat \<Rightarrow> jsval option \<Rightarrow> env" where
  "mock_env code decoded =
     \<lparr>JSON_stringify = (\<lambda>v. ''<json>''),
      fetch = (\<lambda>r. Inr \<lparr>status = code, json = decoded\<rparr>)\<rparr>"

definition mock_client :: JetEmail where
  "mock_client = \<lparr>apiKey = JStr ''key'', baseUrl = DEFAULT_BASE_URL\<rparr>"

definition mock_sent :: "string \<Rightarrow> http_request" where
  "mock_sent endpoint =
     \<lparr>url = ''https://api.jetemail.com'' @ endpoint, http_method = ''POST'',
      headers = [(''Content-Type'', ''application/json''), (''Authorization'', ''Bearer key'')],
      body = ''<json>''\<rparr>"

definition valid_email :: jsval where
  "valid_email =
     JObj [(''from'', JStr ''A <a@x.com>''), (''to'', JStr ''b@y.com''),
           (''subject'', JStr ''Hi''), (''text'', JStr ''hello'')]"

section \<open>Properties of the building blocks\<close>


lemma getprop_Inr_iff:
  "(\<exists>x. getprop v k = Inr x) \<longleftrightarrow> v \<noteq> JUndefined \<and> v \<noteq> JNull"
  by (cases v) auto

lemma Batch_validate_is_Emails_validate:
  "Batch_validateEmailOptions = Emails_validateEmailOptions"
  by (rule ext) (simp add: Batch_validateEmailOptions_def Emails_validateEmailOptions_def)


lemma forEach_validate_all_valid:
  "\<forall>x \<in> set xs. Batch_validateEmailOptions x = Inr () \<Longrightarrow> forEach_validate xs i = Inr ()"
  by (induction xs arbitrary: i) auto


lemma mock_request_sent:
  "fst (request (mock_env code decoded) mock_client endpoint payload) = [mock_sent endpoint]"
  by (simp add: request_def mock_env_def mock_client_def mock_sent_def DEFAULT_BASE_URL_def)

lemma mock_fetch_answers:
  "fetch (mock_env code decoded) r = Inr \<lparr>status = code, json = decoded\<rparr>"
  by (simp add: mock_env_def)

section \<open>The dispatch routine\<close>

text \<open>
  C7. Whatever the status code, a response whose body does not decode makes the dispatch
  routine raise a JetEmailError whose statusCode is the response's status, whose message is
  the generic "Request failed with status N", and whose response field is left undefined.
  The response is whatever the transport answers to the request that the routine builds from
  the client, the endpoint and the payload.
\<close>

theorem request_undecodable_body:
  assumes "ToString (apiKey this) = Inr credential"
    and "fetch e \<lparr>url = baseUrl this @ endpoint, http_method = ''POST'',
                   headers = [(''Content-Type'', ''application/json''),
                              (''Authorization'', ''Bearer '' @ credential)],
                   body = JSON_stringify e payload\<rparr> = Inr response"
    and "json response = None"
  shows "snd (request e this endpoint payload) =
           Inl (JetEmailError (''Request failed with status '' @ string_of_nat (status response))
                  (status response) JUndefined)"
  using assms by (simp add: request_def Let_def new_JetEmailError_def)

theorem request_undecodable_body_witness:
  "snd (request (mock_env 500 None) mock_client ''/email'' valid_email) =
     Inl (JetEmailError ''Request failed with status 500'' 500 JUndefined)
   \<and> snd (request (mock_env 204 None) mock_client ''/email'' valid_email) =
     Inl (JetEmailError ''Request failed with status 204'' 204 JUndefined)"
  using
    request_undecodable_body [where e = "mock_env 500 None" and this = mock_client
      and credential = "''key''" and endpoint = "''/email''" and payload = valid_email
      and response = "\<lparr>status = 500, json = None\<rparr>"]
    request_undecodable_body [where e = "mock_env 204 None" and this = mock_client
      and credential = "''key''" and endpoint = "''/email''" and payload = valid_email
      and response = "\<lparr>status = 204, json = None\<rparr>"]
  by (simp add: mock_client_def mock_fetch_answers string_of_nat.simps)

text \<open>
  C6. For a response with a status from 200 to 299 whose body decodes, the dispatch routine
  returns the decoded value itself: nothing is checked against a schema and no field is
  changed. The scenario of the body \<^verbatim>\<open>{id: "abc", response: "queued"}\<close> is the witness.
\<close>

theorem request_success_verbatim:
  assumes "ToString (apiKey this) = Inr credential"
    and "fetch e \<lparr>url = baseUrl this @ endpoint, http_method = ''POST'',
                   headers = [(''Content-Type'', ''application/json''),
                              (''Authorization'', ''Bearer '' @ credential)],
                   body = JSON_stringify e payload\<rparr> = Inr response"
    and "json response = Some d"
    and "ok response"
  shows "snd (request e this endpoint payload) = Inr d"
  using assms by (simp add: request_def Let_def)

theorem request_success_verbatim_witness:
  "snd (request (mock_env 200 (Some (JObj [(''id'', JStr ''abc''), (''response'', JStr ''queued'')])))
          mock_client ''/email'' valid_email) =
     Inr (JObj [(''id'', JStr ''abc''), (''response'', JStr ''queued'')])
   \<and> getprop (JObj [(''id'', JStr ''abc''), (''response'', JStr ''queued'')]) ''id'' =
       Inr (JStr ''abc'')
   \<and> getprop (JObj [(''id'', JStr ''abc''), (''response'', JStr ''queued'')]) ''response'' =
       Inr (JStr ''queued'')"
  using request_success_verbatim
      [where e = "mock_env 200 (Some (JObj [(''id'', JStr ''abc''), (''response'', JStr ''queued'')]))"
         and this = mock_client and credential = "''key''" and endpoint = "''/email''"
         and payload = valid_email
         and response = "\<lparr>status = 200,
            json = Some (JObj [(''id'', JStr ''abc''), (''response'', JStr ''queued'')])\<rparr>"
         and d = "JObj [(''id'', JStr ''abc''), (''response'', JStr ''queued'')]"]
  by (simp add: mock_client_def mock_fetch_answers ok_def obj_get_def)

text \<open>
  On the bodies the service documents, the routine does what the spec says of a failure
  status: the message is the \<^verbatim>\<open>message\<close> field, else the \<^verbatim>\<open>error\<close> field, else
  "Unknown error", and the decoded body is carried along.
\<close>

lemma request_error_scenarios:
  "snd (request (mock_env 400 (Some (JObj [(''message'', JStr ''invalid recipient'')])))
          mock_client ''/email'' valid_email) =
     Inl (JetEmailError ''invalid recipient'' 400 (JObj [(''message'', JStr ''invalid recipient'')]))
   \<and> snd (request (mock_env 401 (Some (JObj [(''error'', JStr ''bad key'')])))
          mock_client ''/email'' valid_email) =
     Inl (JetEmailError ''bad key'' 401 (JObj [(''error'', JStr ''bad key'')]))
   \<and> snd (request (mock_env 500 (Some (JObj []))) mock_client ''/email'' valid_email) =
     Inl (JetEmailError ''Unknown error'' 500 (JObj []))"
  by (simp add: request_def mock_env_def mock_client_def ok_def obj_get_def
        new_JetEmailError_def)

text \<open>
  C2. The claim is that every failure status with a body that decodes ends in a JetEmailError
  with that status, and the README says the same ("The SDK throws JetEmailError for API
  errors"). The code does not: the JSON text \<^verbatim>\<open>null\<close> decodes, and at status 500 the read of
  \<^verbatim>\<open>message\<close> on it throws a TypeError; and at status 400 the body
  \<^verbatim>\<open>{"message": {"toString": 1}}\<close> makes the Error constructor throw a TypeError when it
  converts the message. In both runs the caller gets a TypeError and no status code.
\<close>

theorem request_error_body_raises_TypeError:
  "\<not> ok \<lparr>status = 500, json = Some JNull\<rparr>
   \<and> snd (request (mock_env 500 (Some JNull)) mock_client ''/email'' valid_email) =
       Inl (TypeError (''Cannot read properties of null (reading '' @ [CHR 0x27] @
              ''message'' @ [CHR 0x27] @ '')''))
   \<and> \<not> ok \<lparr>status = 400, json = Some (JObj [(''message'', JObj [(''toString'', JNum ''1'')])])\<rparr>
   \<and> snd (request (mock_env 400 (Some (JObj [(''message'', JObj [(''toString'', JNum ''1'')])])))
          mock_client ''/email'' valid_email) =
       Inl (TypeError ''Cannot convert object to primitive value'')"
  by (simp add: request_def mock_env_def mock_client_def ok_def obj_get_def
        new_JetEmailError_def)

lemma validate_object:
  \<open>Emails_validateEmailOptions (JObj fs) =
     (if \<not> truthy (obj_get fs ''from'') then Inl (Error ''JetEmail: "from" is required'')
      else if \<not> truthy (obj_get fs ''to'') then Inl (Error ''JetEmail: "to" is required'')
      else if \<not> truthy (obj_get fs ''subject'') then Inl (Error ''JetEmail: "subject" is required'')
      else if \<not> truthy (obj_get fs ''html'') \<and> \<not> truthy (obj_get fs ''text'')
      then Inl (Error ''JetEmail: at least one of "html" or "text" is required'')
      else Inr ())\<close>
  by (simp add: Emails_validateEmailOptions_def)

lemma valid_email_passes: "Emails_validateEmailOptions valid_email = Inr ()"
  by (simp add: valid_email_def validate_object obj_get_def)

lemma batch_head_invalid:
  assumes "length rest < 100" and "Emails_validateEmailOptions v = Inl (Error m)"
  shows "Batch_send req (JArr (v # rest)) =
           ([], Inl (Error (''JetEmail: email at index 0 is invalid - '' @ m)))"
  using assms
  by (simp add: Batch_send_def Batch_validate_is_Emails_validate string_of_nat.simps)

lemma batch_all_valid:
  assumes "xs \<noteq> []" and "length xs \<le> 100"
    and "\<forall>x \<in> set xs. Batch_validateEmailOptions x = Inr ()"
  shows "Batch_send req (JArr xs) = req ''/email-batch'' (JObj [(''emails'', JArr xs)])"
  using assms by (simp add: Batch_send_def forEach_validate_all_valid)

section \<open>Local validation\<close>

text \<open>
  C1. Single-send validates a request object before anything is handed to the transport: the
  checks run in the order from, to, subject, html-or-text; the first one that fails ends the
  call with its own message, whatever the later fields hold, and no request is issued. The
  four messages are pairwise different.
\<close>

theorem send_validation_order:
  \<open>(\<not> truthy (obj_get fs ''from'') \<longrightarrow>
      Emails_send req (JObj fs) = ([], Inl (Error ''JetEmail: "from" is required'')))
   \<and> (truthy (obj_get fs ''from'') \<and> \<not> truthy (obj_get fs ''to'') \<longrightarrow>
      Emails_send req (JObj fs) = ([], Inl (Error ''JetEmail: "to" is required'')))
   \<and> (truthy (obj_get fs ''from'') \<and> truthy (obj_get fs ''to'')
        \<and> \<not> truthy (obj_get fs ''subject'') \<longrightarrow>
      Emails_send req (JObj fs) = ([], Inl (Error ''JetEmail: "subject" is required'')))
   \<and> (truthy (obj_get fs ''from'') \<and> truthy (obj_get fs ''to'')
        \<and> truthy (obj_get fs ''subject'')
        \<and> \<not> truthy (obj_get fs ''html'') \<and> \<not> truthy (obj_get fs ''text'') \<longrightarrow>
      Emails_send req (JObj fs) =
        ([], Inl (Error ''JetEmail: at least one of "html" or "text" is required'')))
   \<and> distinct [''JetEmail: "from" is required'', ''JetEmail: "to" is required'',
                ''JetEmail: "subject" is required'',
                ''JetEmail: at least one of "html" or "text" is required'']\<close>
  by (simp add: Emails_send_def validate_object)

theorem send_validation_order_witness:
  \<open>Emails_send (request (mock_env 200 None) mock_client) (JObj []) =
     ([], Inl (Error ''JetEmail: "from" is required''))
   \<and> Emails_send (request (mock_env 200 None) mock_client) (JObj [(''from'', JStr ''a@x.com'')]) =
     ([], Inl (Error ''JetEmail: "to" is required''))
   \<and> Emails_send (request (mock_env 200 None) mock_client)
        (JObj [(''from'', JStr ''a@x.com''), (''to'', JStr ''b@y.com'')]) =
     ([], Inl (Error ''JetEmail: "subject" is required''))
   \<and> Emails_send (request (mock_env 200 None) mock_client)
        (JObj [(''from'', JStr ''a@x.com''), (''to'', JStr ''b@y.com''), (''subject'', JStr ''Hi'')]) =
     ([], Inl (Error ''JetEmail: at least one of "html" or "text" is required''))\<close>
  using
    send_validation_order [of "[]" "request (mock_env 200 None) mock_client"]
    send_validation_order [of "[(''from'', JStr ''a@x.com'')]"
      "request (mock_env 200 None) mock_client"]
    send_validation_order [of "[(''from'', JStr ''a@x.com''), (''to'', JStr ''b@y.com'')]"
      "request (mock_env 200 None) mock_client"]
    send_validation_order
      [of "[(''from'', JStr ''a@x.com''), (''to'', JStr ''b@y.com''), (''subject'', JStr ''Hi'')]"
          "request (mock_env 200 None) mock_client"]
  by (simp add: obj_get_def)

text \<open>
  C10. Presence is truthiness, so a field that is present and holds the empty string counts as
  missing: validation of a request gives the same result whether a field holds the empty string
  or is undefined. With the earlier fields truthy, a from, to or subject that is the empty string makes
  single-send raise that field's "required" message, and makes batch-send raise it wrapped
  with the item's index; an html that is the empty string with no text field raises the
  message about the missing body.
\<close>

theorem empty_string_is_missing:
  assumes "length rest < 100"
  shows
  \<open>(obj_get fs ''from'' = JStr [] \<longrightarrow>
      Emails_send req (JObj fs) = ([], Inl (Error ''JetEmail: "from" is required''))
      \<and> Batch_send req (JArr (JObj fs # rest)) =
          ([], Inl (Error ''JetEmail: email at index 0 is invalid - JetEmail: "from" is required'')))
   \<and> (truthy (obj_get fs ''from'') \<and> obj_get fs ''to'' = JStr [] \<longrightarrow>
      Emails_send req (JObj fs) = ([], Inl (Error ''JetEmail: "to" is required''))
      \<and> Batch_send req (JArr (JObj fs # rest)) =
          ([], Inl (Error ''JetEmail: email at index 0 is invalid - JetEmail: "to" is required'')))
   \<and> (truthy (obj_get fs ''from'') \<and> truthy (obj_get fs ''to'')
        \<and> obj_get fs ''subject'' = JStr [] \<longrightarrow>
      Emails_send req (JObj fs) = ([], Inl (Error ''JetEmail: "subject" is required''))
      \<and> Batch_send req (JArr (JObj fs # rest)) =
          ([], Inl (Error ''JetEmail: email at index 0 is invalid - JetEmail: "subject" is required'')))
   \<and> (truthy (obj_get fs ''from'') \<and> truthy (obj_get fs ''to'')
        \<and> truthy (obj_get fs ''subject'')
        \<and> obj_get fs ''html'' = JStr [] \<and> obj_get fs ''text'' = JUndefined \<longrightarrow>
      Emails_send req (JObj fs) =
        ([], Inl (Error ''JetEmail: at least one of "html" or "text" is required''))
      \<and> Batch_send req (JArr (JObj fs # rest)) =
          ([], Inl (Error ''JetEmail: email at index 0 is invalid - JetEmail: at least one of "html" or "text" is required'')))
   \<and> Emails_validateEmailOptions (JObj ((k, JStr []) # fs)) =
       Emails_validateEmailOptions (JObj ((k, JUndefined) # fs))
   \<and> Batch_validateEmailOptions (JObj ((k, JStr []) # fs)) =
       Batch_validateEmailOptions (JObj ((k, JUndefined) # fs))\<close>
proof -
  have same: "truthy (obj_get ((k, JStr []) # fs) n) = truthy (obj_get ((k, JUndefined) # fs) n)"
    for n
    by (simp add: obj_get_def)
  have "Emails_validateEmailOptions (JObj ((k, JStr []) # fs)) =
          Emails_validateEmailOptions (JObj ((k, JUndefined) # fs))"
    unfolding validate_object same ..
  with assms show ?thesis
    by (simp add: Emails_send_def validate_object batch_head_invalid
          Batch_validate_is_Emails_validate)
qed

theorem empty_string_is_missing_witness:
  \<open>Emails_send (request (mock_env 200 None) mock_client)
       (JObj [(''from'', JStr ''a@x.com''), (''to'', JStr []), (''subject'', JStr ''Hi''),
              (''text'', JStr ''hello'')]) =
     ([], Inl (Error ''JetEmail: "to" is required''))
   \<and> Batch_send (request (mock_env 200 None) mock_client)
       (JArr [JObj [(''from'', JStr ''a@x.com''), (''to'', JStr ''b@y.com''),
                    (''subject'', JStr ''Hi''), (''html'', JStr [])],
              valid_email]) =
     ([], Inl (Error ''JetEmail: email at index 0 is invalid - JetEmail: at least one of "html" or "text" is required''))
   \<and> Emails_send (request (mock_env 200 None) mock_client)
       (JObj [(''from'', JStr []), (''to'', JStr ''b@y.com''), (''subject'', JStr []),
              (''text'', JStr ''hello'')]) =
     ([], Inl (Error ''JetEmail: "from" is required''))
   \<and> Batch_send (request (mock_env 200 None) mock_client)
       (JArr [JObj [(''from'', JStr ''a@x.com''), (''to'', JStr ''b@y.com''),
                    (''subject'', JStr []), (''text'', JStr ''hello'')]]) =
     ([], Inl (Error ''JetEmail: email at index 0 is invalid - JetEmail: "subject" is required''))\<close>
  using
    empty_string_is_missing
      [of "[]" "[(''from'', JStr ''a@x.com''), (''to'', JStr []), (''subject'', JStr ''Hi''),
                (''text'', JStr ''hello'')]"
          "request (mock_env 200 None) mock_client" "''to''"]
    empty_string_is_missing
      [of "[valid_email]" "[(''from'', JStr ''a@x.com''), (''to'', JStr ''b@y.com''),
                            (''subject'', JStr ''Hi''), (''html'', JStr [])]"
          "request (mock_env 200 None) mock_client"]
    empty_string_is_missing
      [of "[]" "[(''from'', JStr []), (''to'', JStr ''b@y.com''), (''subject'', JStr []),
                (''text'', JStr ''hello'')]"
          "request (mock_env 200 None) mock_client"]
    empty_string_is_missing
      [of "[]" "[(''from'', JStr ''a@x.com''), (''to'', JStr ''b@y.com''),
                (''subject'', JStr []), (''text'', JStr ''hello'')]"
          "request (mock_env 200 None) mock_client"]
  by (simp add: obj_get_def)

section \<open>Batch input\<close>




text \<open>
  C4, as amended. Batch-send rejects, with no request issued, an input that is not an array or
  that is empty, both with the one message "emails array is required and must not be empty",
  and an array of more than 100 items with the different message "maximum batch size is 100
  emails". An array of exactly 100 valid items passes and is dispatched.

  As stated, with a distinct message for each of the three conditions, the claim fails: the
  non-array and the empty array are one check with one message.
\<close>

theorem batch_input_checks:
  \<open>(\<not> isArray emails \<longrightarrow>
      Batch_send req emails =
        ([], Inl (Error ''JetEmail: emails array is required and must not be empty'')))
   \<and> Batch_send req (JArr []) =
        ([], Inl (Error ''JetEmail: emails array is required and must not be empty''))
   \<and> (100 < length xs \<longrightarrow>
      Batch_send req (JArr xs) = ([], Inl (Error ''JetEmail: maximum batch size is 100 emails'')))
   \<and> ''JetEmail: emails array is required and must not be empty'' \<noteq>
       ''JetEmail: maximum batch size is 100 emails''
   \<and> (length xs = 100 \<and> (\<forall>x \<in> set xs. Batch_validateEmailOptions x = Inr ()) \<longrightarrow>
      Batch_send req (JArr xs) = req ''/email-batch'' (JObj [(''emails'', JArr xs)]))\<close>
proof -
  have "length xs = 100 \<Longrightarrow> xs \<noteq> []" by auto
  then show ?thesis
    using batch_all_valid [of xs req] by (auto simp add: Batch_send_def)
qed

theorem batch_input_checks_witness:
  \<open>Batch_send (request (mock_env 200 None) mock_client) (JStr ''a@x.com'') =
     ([], Inl (Error ''JetEmail: emails array is required and must not be empty''))
   \<and> Batch_send (request (mock_env 200 None) mock_client) (JArr (replicate 101 valid_email)) =
     ([], Inl (Error ''JetEmail: maximum batch size is 100 emails''))
   \<and> Batch_send (request (mock_env 200 None) mock_client) (JArr (replicate 100 valid_email)) =
     request (mock_env 200 None) mock_client ''/email-batch''
       (JObj [(''emails'', JArr (replicate 100 valid_email))])\<close>
  using
    batch_input_checks [of "JStr ''a@x.com''" "request (mock_env 200 None) mock_client"
      "replicate 101 valid_email"]
    batch_input_checks [of "JStr ''a@x.com''" "request (mock_env 200 None) mock_client"
      "replicate 100 valid_email"]
  by (simp add: Batch_validate_is_Emails_validate valid_email_passes)

theorem batch_input_checks_counterexample:
  \<open>\<not> isArray (JStr ''a@x.com'')
   \<and> Batch_send (request (mock_env 200 None) mock_client) (JStr ''a@x.com'') =
       ([], Inl (Error ''JetEmail: emails array is required and must not be empty''))
   \<and> Batch_send (request (mock_env 200 None) mock_client) (JArr []) =
       ([], Inl (Error ''JetEmail: emails array is required and must not be empty''))\<close>
  by (simp add: Batch_send_def)

section \<open>The client\<close>

text \<open>
  C5. The constructor raises when there is no credential: for the empty string, for a
  configuration whose apiKey is missing or falsy, and for no argument at all. Otherwise the
  client stores the credential, and as base address the override with one trailing slash
  removed (an override that does not end in a slash is stored as it is), or
  https://api.jetemail.com when the configuration has no override or the credential was given
  as a bare string.
\<close>

theorem client_construction:
  "new_JetEmail (JStr []) = Inl (Error ''JetEmail: apiKey is required'')
   \<and> (\<not> truthy (obj_get cfg ''apiKey'') \<longrightarrow>
        new_JetEmail (JObj cfg) = Inl (Error ''JetEmail: apiKey is required''))
   \<and> isl (new_JetEmail JUndefined)
   \<and> (k \<noteq> [] \<longrightarrow>
        new_JetEmail (JStr k) = Inr \<lparr>apiKey = JStr k, baseUrl = ''https://api.jetemail.com''\<rparr>)
   \<and> (truthy (obj_get cfg ''apiKey'') \<and> obj_get cfg ''baseUrl'' = JUndefined \<longrightarrow>
        new_JetEmail (JObj cfg) =
          Inr \<lparr>apiKey = obj_get cfg ''apiKey'', baseUrl = ''https://api.jetemail.com''\<rparr>)
   \<and> (truthy (obj_get cfg ''apiKey'') \<and> obj_get cfg ''baseUrl'' = JStr (b @ ''/'') \<longrightarrow>
        new_JetEmail (JObj cfg) = Inr \<lparr>apiKey = obj_get cfg ''apiKey'', baseUrl = b\<rparr>)
   \<and> (truthy (obj_get cfg ''apiKey'') \<and> obj_get cfg ''baseUrl'' = JStr b
        \<and> (b = [] \<or> last b \<noteq> CHR ''/'') \<longrightarrow>
        new_JetEmail (JObj cfg) = Inr \<lparr>apiKey = obj_get cfg ''apiKey'', baseUrl = b\<rparr>)"
  by (auto simp add: new_JetEmail_def obj_get_def DEFAULT_BASE_URL_def replace_trailing_slash_def)

theorem client_construction_witness:
  "new_JetEmail (JObj [(''baseUrl'', JStr ''https://example.test/'')]) =
     Inl (Error ''JetEmail: apiKey is required'')
   \<and> new_JetEmail (JStr ''key'') =
       Inr \<lparr>apiKey = JStr ''key'', baseUrl = ''https://api.jetemail.com''\<rparr>
   \<and> new_JetEmail (JObj [(''apiKey'', JStr ''key'')]) =
       Inr \<lparr>apiKey = JStr ''key'', baseUrl = ''https://api.jetemail.com''\<rparr>
   \<and> new_JetEmail (JObj [(''apiKey'', JStr ''key''), (''baseUrl'', JStr ''https://example.test//'')]) =
       Inr \<lparr>apiKey = JStr ''key'', baseUrl = ''https://example.test/''\<rparr>
   \<and> new_JetEmail (JObj [(''apiKey'', JStr ''key''), (''baseUrl'', JStr ''https://example.test'')]) =
       Inr \<lparr>apiKey = JStr ''key'', baseUrl = ''https://example.test''\<rparr>"
  using
    client_construction [of "[(''baseUrl'', JStr ''https://example.test/'')]" "''key''" "[]"]
    client_construction [of "[(''apiKey'', JStr ''key'')]" "''key''" "[]"]
    client_construction
      [of "[(''apiKey'', JStr ''key''), (''baseUrl'', JStr ''https://example.test//'')]"
          "''key''" "''https://example.test/''"]
    client_construction
      [of "[(''apiKey'', JStr ''key''), (''baseUrl'', JStr ''https://example.test'')]"
          "''key''" "''https://example.test''"]
  by (simp add: obj_get_def)

section \<open>What is sent\<close>

text \<open>
  C8. Every call of the dispatch routine hands exactly one request to the transport: a POST
  to the stored base address followed by the endpoint, with the headers Content-Type:
  application/json and Authorization: Bearer and the credential, and no others, and with the
  JSON serialization of the payload as body. A request that passes validation is sent by
  single-send to /email as it is; a batch that passes is sent by batch-send to /email-batch as
  an object whose one field, emails, holds the list. The credential is a string, as the client
  declares it; the same holds of any credential that the template literal can print.
\<close>

theorem request_shape:
  "(apiKey this = JStr k \<longrightarrow>
      fst (request e this endpoint payload) =
        [\<lparr>url = baseUrl this @ endpoint,
          http_method = ''POST'',
          headers = [(''Content-Type'', ''application/json''),
                     (''Authorization'', ''Bearer '' @ k)],
          body = JSON_stringify e payload\<rparr>])
   \<and> (ToString (apiKey this) = Inr c \<longrightarrow>
      fst (request e this endpoint payload) =
        [\<lparr>url = baseUrl this @ endpoint,
          http_method = ''POST'',
          headers = [(''Content-Type'', ''application/json''),
                     (''Authorization'', ''Bearer '' @ c)],
          body = JSON_stringify e payload\<rparr>])
   \<and> (Emails_validateEmailOptions options = Inr () \<longrightarrow>
        email_send e this options = request e this ''/email'' options)
   \<and> (xs \<noteq> [] \<and> length xs \<le> 100 \<and> (\<forall>x \<in> set xs. Batch_validateEmailOptions x = Inr ()) \<longrightarrow>
        batch_send e this (JArr xs) =
          request e this ''/email-batch'' (JObj [(''emails'', JArr xs)]))"
proof -
  have sent: "fst (request e this endpoint payload) =
        [\<lparr>url = baseUrl this @ endpoint,
          http_method = ''POST'',
          headers = [(''Content-Type'', ''application/json''),
                     (''Authorization'', ''Bearer '' @ c)],
          body = JSON_stringify e payload\<rparr>]"
    if "ToString (apiKey this) = Inr c" for c
    using that by (simp add: request_def Let_def)
  have single: "email_send e this options = request e this ''/email'' options"
    if "Emails_validateEmailOptions options = Inr ()"
    using that by (simp add: email_send_def Emails_send_def)
  have batch: "batch_send e this (JArr xs) =
          request e this ''/email-batch'' (JObj [(''emails'', JArr xs)])"
    if "xs \<noteq> [] \<and> length xs \<le> 100 \<and> (\<forall>x \<in> set xs. Batch_validateEmailOptions x = Inr ())"
    using that batch_all_valid [of xs "request e this"] by (simp add: batch_send_def)
  from sent [of k] sent [of c] single batch show ?thesis by simp
qed

theorem request_shape_witness:
  "fst (email_send (mock_env 200 None) mock_client valid_email) =
     [\<lparr>url = ''https://api.jetemail.com/email'', http_method = ''POST'',
       headers = [(''Content-Type'', ''application/json''), (''Authorization'', ''Bearer key'')],
       body = JSON_stringify (mock_env 200 None) valid_email\<rparr>]
   \<and> fst (batch_send (mock_env 200 None) mock_client (JArr [valid_email, valid_email])) =
     [\<lparr>url = ''https://api.jetemail.com/email-batch'', http_method = ''POST'',
       headers = [(''Content-Type'', ''application/json''), (''Authorization'', ''Bearer key'')],
       body = JSON_stringify (mock_env 200 None)
                (JObj [(''emails'', JArr [valid_email, valid_email])])\<rparr>]"
  using
    request_shape [where e = "mock_env 200 None" and this = mock_client
      and endpoint = "''/email''" and payload = valid_email and k = "''key''" and c = "''key''"
      and options = valid_email and xs = "[valid_email, valid_email]"]
    request_shape [where e = "mock_env 200 None" and this = mock_client
      and endpoint = "''/email-batch''"
      and payload = "JObj [(''emails'', JArr [valid_email, valid_email])]"
      and k = "''key''" and c = "''key''"
      and options = valid_email and xs = "[valid_email, valid_email]"]
  by (simp add: Batch_validate_is_Emails_validate valid_email_passes mock_client_def
        DEFAULT_BASE_URL_def)

section \<open>The two classes of error\<close>

text \<open>
  Errors of local validation are plain: what the validation of one request throws is an Error
  or, for a request that is null or undefined, the engine's TypeError, and what the loop over
  a batch throws is always a new Error.
\<close>

lemma forEach_validate_throws_Error:
  "forEach_validate xs i = Inl err \<Longrightarrow> \<exists>m. err = Error m"
proof (induction xs arbitrary: i)
  case Nil
  then show ?case by simp
next
  case (Cons x xs)
  then show ?case by (cases "Batch_validateEmailOptions x") auto
qed

text \<open>
  C9. The claim is that local validation raises plain errors and the dispatch routine raises
  only JetEmailErrors with a status code, so that a type check tells the two apart; the README
  says the same of API errors, and the path of a body that does not decode wraps its failure
  in a JetEmailError. The path of a failure status does not: batch-send of one valid request,
  answered with status 404 and the body \<^verbatim>\<open>null\<close>, issues its request and then rejects with a
  TypeError, which is no JetEmailError and carries no status code.
\<close>

theorem dispatch_raises_TypeError:
  "batch_send (mock_env 404 (Some JNull)) mock_client (JArr [valid_email]) =
     ([mock_sent ''/email-batch''],
      Inl (TypeError (''Cannot read properties of null (reading '' @ [CHR 0x27] @
             ''message'' @ [CHR 0x27] @ '')'')))
   \<and> \<not> instanceof_JetEmailError
         (TypeError (''Cannot read properties of null (reading '' @ [CHR 0x27] @
             ''message'' @ [CHR 0x27] @ '')''))"
  by (simp add: batch_send_def Batch_send_def Batch_validate_is_Emails_validate
        valid_email_passes request_def mock_env_def mock_client_def mock_sent_def
        DEFAULT_BASE_URL_def ok_def)

end
